theory Spec2Isabelle
  imports Complex_Main
begin

section \<open>The chamber geometry script (geometry/build_and_mesh.py)\<close>

text \<open>
  Python floats are modelled by the real numbers they stand for. The rounding of doubles
  to 53 bits is not modelled; where it could matter, a statement carries a range of
  magnitudes and a tolerance. The geometry script is modelled by its statements,
  one constructor per kind of statement of the generated text, with the numbers that the
  f-string inserts. A formatted expression such as \<^verbatim>\<open>{mesh_x}-{mesh_thk/2}\<close>,
  which the meshing engine evaluates when it reads the script, is the real number
  \<open>mesh_x - mesh_thk / 2\<close>; \<^verbatim>\<open>-{out_depth}\<close> is \<open>- out_depth\<close>.
\<close>

record ChamberParameters =
  lx :: real
  ly :: real
  lz :: real
  tube_id :: real
  tube_len :: real
  mesh_x :: real
  mesh_thk :: real
  out_id :: real
  out_depth :: real

text \<open>The module-level dictionary \<^verbatim>\<open>params\<close> (lines 12-17).\<close>

definition params :: ChamberParameters where
  "params = \<lparr> lx = 30.0, ly = 20.0, lz = 20.0,
              tube_id = 3.175, tube_len = 18.0,
              mesh_x = 10.0, mesh_thk = 0.11,
              out_id = 3.175, out_depth = 2.0 \<rparr>"

type_synonym point = "real \<times> real \<times> real"

text \<open>
  A surface selector of a \<^verbatim>\<open>Physical Surface\<close> statement: either
  \<^verbatim>\<open>Surface In BoundingBox{xmin,ymin,zmin, xmax,ymax,zmax}\<close> or the wildcard
  \<^verbatim>\<open>Surface "*"\<close>.
\<close>

datatype selector =
  InBoundingBox point point
| AllSurfaces

text \<open>
  The statements of the script. Volumes are named by integer tags. A boolean operation
  lists its object tags and its tool tags, each group with its \<^verbatim>\<open>Delete\<close> flag;
  the script text gives the result no tag of its own.
\<close>

datatype instr =
  SetFactory string
| Box nat point point
| Cylinder nat point point real
| BooleanDifference "nat list" bool "nat list" bool
| BooleanFuse "nat list" bool "nat list" bool
| PhysicalVolume string "nat list"
| PhysicalSurface string selector
| CharacteristicLength "nat list" real
| MeshOption string real

text \<open>The f-string \<^verbatim>\<open>geo_template\<close> (lines 24-46), statement by statement.\<close>

definition geo_template :: "ChamberParameters \<Rightarrow> instr list" where
  "geo_template p =
   [ SetFactory ''OpenCASCADE'',
     Box 1 (0, 0, 0) (lx p, ly p, lz p),
     Cylinder 2 (4, 10, 2) (0, 0, tube_len p) (tube_id p / 2),
     Cylinder 3 (26, 10, lz p) (0, 0, - out_depth p) (out_id p / 2),
     Box 4 (mesh_x p - mesh_thk p / 2, 0, 0) (mesh_thk p, ly p, lz p),
     BooleanDifference [1] True [2, 3] True,
     BooleanFuse [1] True [4] True,
     PhysicalVolume ''fluid'' [1],
     PhysicalSurface ''inlet'' (InBoundingBox (3.9, 9.9, 20) (4.1, 10.1, 20.1)),
     PhysicalSurface ''outlet'' (InBoundingBox (25.9, 9.9, 17.9) (26.1, 10.1, 20.1)),
     PhysicalSurface ''mesh''
       (InBoundingBox (mesh_x p - 0.06, - 0.1, - 0.1)
                      (mesh_x p + 0.06, ly p + 0.1, lz p + 0.1)),
     PhysicalSurface ''walls'' AllSurfaces,
     CharacteristicLength [1] 2.0,
     MeshOption ''CharacteristicLengthExtend'' 0 ]"

subsection \<open>Reading the script: kinds of statements\<close>

datatype kind =
  KBox | KCylinder | KDifference | KUnion | KOther

fun kind_of :: "instr \<Rightarrow> kind" where
  "kind_of (Box _ _ _) = KBox"
| "kind_of (Cylinder _ _ _ _) = KCylinder"
| "kind_of (BooleanDifference _ _ _ _) = KDifference"
| "kind_of (BooleanFuse _ _ _ _) = KUnion"
| "kind_of _ = KOther"

text \<open>The primitives and boolean operations of a script, in the order of emission.\<close>

definition csg_instrs :: "instr list \<Rightarrow> instr list" where
  "csg_instrs prog = filter (\<lambda>i. kind_of i \<noteq> KOther) prog"

subsection \<open>Reading the script: volume tags and their consumption\<close>

text \<open>The volume tags a statement refers to (its operands).\<close>

fun refs :: "instr \<Rightarrow> nat list" where
  "refs (BooleanDifference obj _ tool _) = obj @ tool"
| "refs (BooleanFuse obj _ tool _) = obj @ tool"
| "refs (PhysicalVolume _ vs) = vs"
| "refs (CharacteristicLength vs _) = vs"
| "refs _ = []"

text \<open>The volume tags a statement creates by name.\<close>

fun creates :: "instr \<Rightarrow> nat list" where
  "creates (Box t _ _) = [t]"
| "creates (Cylinder t _ _ _) = [t]"
| "creates _ = []"

text \<open>The tags a statement consumes: the operand groups marked \<^verbatim>\<open>Delete\<close>.\<close>

fun consumes :: "instr \<Rightarrow> nat list" where
  "consumes (BooleanDifference obj d1 tool d2) =
     (if d1 then obj else []) @ (if d2 then tool else [])"
| "consumes (BooleanFuse obj d1 tool d2) =
     (if d1 then obj else []) @ (if d2 then tool else [])"
| "consumes _ = []"

text \<open>The \<^verbatim>\<open>Delete\<close> flags of the boolean operations of a script, in order.\<close>

fun delete_flags :: "instr list \<Rightarrow> (bool \<times> bool) list" where
  "delete_flags [] = []"
| "delete_flags (BooleanDifference _ d1 _ d2 # prog) = (d1, d2) # delete_flags prog"
| "delete_flags (BooleanFuse _ d1 _ d2 # prog) = (d1, d2) # delete_flags prog"
| "delete_flags (_ # prog) = delete_flags prog"

text \<open>
  The liveness check over a script: \<open>stale_refs dead prog\<close> lists, in order, every
  reference to a tag made after the tag was consumed and before a statement created it
  again; \<open>dead\<close> holds the tags consumed so far.
\<close>

fun stale_refs :: "nat list \<Rightarrow> instr list \<Rightarrow> nat list" where
  "stale_refs dead [] = []"
| "stale_refs dead (i # prog) =
     filter (\<lambda>h. h \<in> set dead) (refs i)
     @ stale_refs (consumes i @ filter (\<lambda>h. h \<notin> set (creates i)) dead) prog"

definition no_use_after_consume :: "instr list \<Rightarrow> bool" where
  "no_use_after_consume prog = (stale_refs [] prog = [])"

subsection \<open>The boundary regions (lines 38-42)\<close>

text \<open>The named surface regions of a script, in declaration order.\<close>

fun physical_surfaces :: "instr list \<Rightarrow> (string \<times> selector) list" where
  "physical_surfaces [] = []"
| "physical_surfaces (PhysicalSurface name sel # prog) = (name, sel) # physical_surfaces prog"
| "physical_surfaces (_ # prog) = physical_surfaces prog"

definition classify :: "ChamberParameters \<Rightarrow> (string \<times> selector) list" where
  "classify p = physical_surfaces (geo_template p)"

definition region :: "string \<Rightarrow> ChamberParameters \<Rightarrow> selector option" where
  "region name p = map_of (classify p) name"

text \<open>
  A bounding box is non-empty when it has a positive extent along each axis; its
  volume is the product of the three extents. The wildcard has no bounding box.
\<close>

fun bbox_nonempty :: "selector \<Rightarrow> bool option" where
  "bbox_nonempty (InBoundingBox (x0, y0, z0) (x1, y1, z1)) =
     Some (x0 < x1 \<and> y0 < y1 \<and> z0 < z1)"
| "bbox_nonempty AllSurfaces = None"

fun bbox_volume :: "selector \<Rightarrow> real option" where
  "bbox_volume (InBoundingBox (x0, y0, z0) (x1, y1, z1)) =
     Some ((x1 - x0) * (y1 - y0) * (z1 - z0))"
| "bbox_volume AllSurfaces = None"

fun bbox_contains :: "selector \<Rightarrow> point \<Rightarrow> bool" where
  "bbox_contains (InBoundingBox (x0, y0, z0) (x1, y1, z1)) (x, y, z) =
     (x0 \<le> x \<and> x \<le> x1 \<and> y0 \<le> y \<and> y \<le> y1 \<and> z0 \<le> z \<and> z \<le> z1)"
| "bbox_contains AllSurfaces _ = True"

text \<open>The interval of x covered by a bounding box.\<close>

fun x_extent :: "selector \<Rightarrow> (real \<times> real) option" where
  "x_extent (InBoundingBox (x0, _, _) (x1, _, _)) = Some (x0, x1)"
| "x_extent AllSurfaces = None"

text \<open>Whether the plane \<open>x = c\<close> lies within the x-extent of a region's bounding box.\<close>

fun plane_in_slab :: "selector option \<Rightarrow> real \<Rightarrow> bool" where
  "plane_in_slab (Some (InBoundingBox (x0, _, _) (x1, _, _))) c = (x0 \<le> c \<and> c \<le> x1)"
| "plane_in_slab _ c = False"

text \<open>
  Whether a region's bounding box straddles the plane \<open>x = c\<close> with a margin of at
  least \<open>m\<close> on each side.
\<close>

fun straddles_x :: "selector option \<Rightarrow> real \<Rightarrow> real \<Rightarrow> bool" where
  "straddles_x (Some (InBoundingBox (x0, _, _) (x1, _, _))) c m = (x0 \<le> c - m \<and> c + m \<le> x1)"
| "straddles_x _ c m = False"

subsection \<open>The plate of the preview (lines 95-99)\<close>

text \<open>The eight corner vertices \<^verbatim>\<open>plate\<close> and the list \<^verbatim>\<open>faces\<close> drawn from them.\<close>

definition plate :: "ChamberParameters \<Rightarrow> point list" where
  "plate p =
    (let mx = mesh_x p; th = mesh_thk p in
     [ (mx - th / 2, 0, 0), (mx + th / 2, 0, 0), (mx + th / 2, ly p, 0), (mx - th / 2, ly p, 0),
       (mx - th / 2, 0, lz p), (mx + th / 2, 0, lz p), (mx + th / 2, ly p, lz p),
       (mx - th / 2, ly p, lz p) ])"

definition plate_faces :: "ChamberParameters \<Rightarrow> point list list" where
  "plate_faces p =
     [ [plate p ! 0, plate p ! 1, plate p ! 2, plate p ! 3],
       [plate p ! 4, plate p ! 5, plate p ! 6, plate p ! 7] ]"

definition xs_of :: "point list \<Rightarrow> real list" where
  "xs_of face = map fst face"

definition zs_of :: "point list \<Rightarrow> real list" where
  "zs_of face = map (snd \<circ> snd) face"

section \<open>numpy arithmetic\<close>

text \<open>
  A numpy float is a real number or one of the special values \<open>inf\<close>, \<open>-inf\<close>
  and \<open>nan\<close>. The range of doubles is modelled, their rounding to 53 bits is not:
  the sum, product or quotient of finite values is the exact value when this lies in
  the range of doubles, an infinity when it overflows and \<open>0\<close> when it underflows.
  numpy's array and scalar operations do not raise on a division by zero or an invalid
  operation (they warn and return a special value), and the special values propagate
  by the IEEE rules. The sign of a zero is not modelled: a zero divisor counts as
  \<open>+0\<close>.
\<close>

datatype npfloat = Fin real | PInf | NInf | NaN

text \<open>The Python exceptions that the modelled code can raise.\<close>

datatype py_error = ValueError | IndexError | AssertionError

text \<open>
  The double for an exact result \<open>x\<close>, rounding apart. A magnitude of
  \<open>2^1024 - 2^970\<close> or more (half an ulp above the largest double) gives an
  infinity; a magnitude of at most \<open>2^-1075\<close> (half the smallest subnormal) gives
  \<open>0\<close>.
\<close>

definition dbl :: "real \<Rightarrow> npfloat" where
  "dbl x =
     (if 2 ^ 1024 - 2 ^ 970 \<le> \<bar>x\<bar> then (if 0 < x then PInf else NInf)
      else if \<bar>x\<bar> \<le> 1 / 2 ^ 1075 then Fin 0
      else Fin x)"

fun np_neg :: "npfloat \<Rightarrow> npfloat" where
  "np_neg (Fin a) = Fin (- a)"
| "np_neg PInf = NInf"
| "np_neg NInf = PInf"
| "np_neg NaN = NaN"

fun np_add :: "npfloat \<Rightarrow> npfloat \<Rightarrow> npfloat" where
  "np_add (Fin a) (Fin b) = dbl (a + b)"
| "np_add NaN _ = NaN"
| "np_add _ NaN = NaN"
| "np_add PInf NInf = NaN"
| "np_add NInf PInf = NaN"
| "np_add PInf _ = PInf"
| "np_add _ PInf = PInf"
| "np_add NInf _ = NInf"
| "np_add _ NInf = NInf"

definition np_sub :: "npfloat \<Rightarrow> npfloat \<Rightarrow> npfloat" where
  "np_sub a b = np_add a (np_neg b)"

text \<open>The product of an infinity of the given sign (\<open>True\<close> for \<open>inf\<close>) and a finite value.\<close>

definition inf_times :: "bool \<Rightarrow> real \<Rightarrow> npfloat" where
  "inf_times pos a =
     (if a = 0 then NaN else if (0 < a) = pos then PInf else NInf)"

fun np_mul :: "npfloat \<Rightarrow> npfloat \<Rightarrow> npfloat" where
  "np_mul (Fin a) (Fin b) = dbl (a * b)"
| "np_mul NaN _ = NaN"
| "np_mul _ NaN = NaN"
| "np_mul (Fin a) PInf = inf_times True a"
| "np_mul (Fin a) NInf = inf_times False a"
| "np_mul PInf (Fin b) = inf_times True b"
| "np_mul NInf (Fin b) = inf_times False b"
| "np_mul PInf PInf = PInf"
| "np_mul PInf NInf = NInf"
| "np_mul NInf PInf = NInf"
| "np_mul NInf NInf = PInf"

fun np_div :: "npfloat \<Rightarrow> npfloat \<Rightarrow> npfloat" where
  "np_div (Fin a) (Fin b) =
     (if b = 0 then (if a = 0 then NaN else if 0 < a then PInf else NInf)
      else dbl (a / b))"
| "np_div NaN _ = NaN"
| "np_div _ NaN = NaN"
| "np_div (Fin a) PInf = Fin 0"
| "np_div (Fin a) NInf = Fin 0"
| "np_div PInf (Fin b) = (if 0 \<le> b then PInf else NInf)"
| "np_div NInf (Fin b) = (if 0 \<le> b then NInf else PInf)"
| "np_div PInf PInf = NaN"
| "np_div PInf NInf = NaN"
| "np_div NInf PInf = NaN"
| "np_div NInf NInf = NaN"

fun np_sqrt :: "npfloat \<Rightarrow> npfloat" where
  "np_sqrt (Fin a) = (if a < 0 then NaN else Fin (sqrt a))"
| "np_sqrt PInf = PInf"
| "np_sqrt NInf = NaN"
| "np_sqrt NaN = NaN"

fun np_abs :: "npfloat \<Rightarrow> npfloat" where
  "np_abs (Fin a) = Fin \<bar>a\<bar>"
| "np_abs PInf = PInf"
| "np_abs NInf = PInf"
| "np_abs NaN = NaN"

fun np_cos :: "npfloat \<Rightarrow> npfloat" where
  "np_cos (Fin a) = Fin (cos a)"
| "np_cos _ = NaN"

fun np_sin :: "npfloat \<Rightarrow> npfloat" where
  "np_sin (Fin a) = Fin (sin a)"
| "np_sin _ = NaN"

text \<open>The comparison \<^verbatim>\<open><\<close>: false whenever an operand is \<open>nan\<close>.\<close>

fun np_less :: "npfloat \<Rightarrow> npfloat \<Rightarrow> bool" where
  "np_less (Fin a) (Fin b) = (a < b)"
| "np_less NaN _ = False"
| "np_less _ NaN = False"
| "np_less NInf NInf = False"
| "np_less NInf _ = True"
| "np_less PInf _ = False"
| "np_less (Fin a) PInf = True"
| "np_less (Fin a) NInf = False"

fun is_finite :: "npfloat \<Rightarrow> bool" where
  "is_finite (Fin a) = True"
| "is_finite _ = False"

subsection \<open>Arrays of three floats\<close>

type_synonym npvec = "npfloat \<times> npfloat \<times> npfloat"

fun fvec :: "point \<Rightarrow> npvec" where
  "fvec (a, b, c) = (Fin a, Fin b, Fin c)"

fun vfinite :: "npvec \<Rightarrow> bool" where
  "vfinite (a, b, c) = (is_finite a \<and> is_finite b \<and> is_finite c)"

fun vadd :: "npvec \<Rightarrow> npvec \<Rightarrow> npvec" where
  "vadd (a0, a1, a2) (b0, b1, b2) = (np_add a0 b0, np_add a1 b1, np_add a2 b2)"

fun vscale :: "npfloat \<Rightarrow> npvec \<Rightarrow> npvec" where
  "vscale s (a0, a1, a2) = (np_mul s a0, np_mul s a1, np_mul s a2)"

fun vdiv :: "npvec \<Rightarrow> npfloat \<Rightarrow> npvec" where
  "vdiv (a0, a1, a2) s = (np_div a0 s, np_div a1 s, np_div a2 s)"

text \<open>\<^verbatim>\<open>np.cross\<close> and \<^verbatim>\<open>np.dot\<close> on arrays of three, \<^verbatim>\<open>np.linalg.norm\<close>.\<close>

fun np_cross :: "npvec \<Rightarrow> npvec \<Rightarrow> npvec" where
  "np_cross (a0, a1, a2) (b0, b1, b2) =
     (np_sub (np_mul a1 b2) (np_mul a2 b1),
      np_sub (np_mul a2 b0) (np_mul a0 b2),
      np_sub (np_mul a0 b1) (np_mul a1 b0))"

fun np_dot :: "npvec \<Rightarrow> npvec \<Rightarrow> npfloat" where
  "np_dot (a0, a1, a2) (b0, b1, b2) =
     np_add (np_add (np_mul a0 b0) (np_mul a1 b1)) (np_mul a2 b2)"

definition np_norm :: "npvec \<Rightarrow> npfloat" where
  "np_norm v = np_sqrt (np_dot v v)"

section \<open>The cylinder of the preview (\<^verbatim>\<open>cyl_faces\<close>, lines 56-66)\<close>

text \<open>Line 58: \<^verbatim>\<open>z = vec/np.linalg.norm(vec)\<close>.\<close>

definition cyl_axis :: "point \<Rightarrow> npvec" where
  "cyl_axis vec = vdiv (fvec vec) (np_norm (fvec vec))"

text \<open>
  Line 60, the vector that line 61 normalises:
  \<^verbatim>\<open>np.cross([0,0,1], z) if abs(z[2])<0.99 else np.cross([0,1,0], z)\<close>.
\<close>

definition cyl_ref :: "npvec \<Rightarrow> npvec" where
  "cyl_ref z =
     (if np_less (np_abs (snd (snd z))) (Fin 0.99) then np_cross (fvec (0, 0, 1)) z
      else np_cross (fvec (0, 1, 0)) z)"

text \<open>Lines 58-62: the frame \<open>(x, y, z)\<close>.\<close>

definition cyl_frame :: "point \<Rightarrow> npvec \<times> npvec \<times> npvec" where
  "cyl_frame vec =
     (let z = cyl_axis vec;
          x0 = cyl_ref z;
          x = vdiv x0 (np_norm x0);
          y = np_cross z x
      in (x, y, z))"

text \<open>
  \<^verbatim>\<open>np.linspace(0, stop, n, endpoint=False)\<close> for \<open>n > 0\<close>: the \<open>n\<close> multiples
  \<open>i * (stop / n)\<close>.
\<close>

definition linspace_open :: "real \<Rightarrow> nat \<Rightarrow> npfloat list" where
  "linspace_open stop n = map (\<lambda>i. Fin (real i * (stop / real n))) [0..<n]"

text \<open>
  Lines 63-66. A vertex is an array of three floats, a face a list of four vertices.
  With \<open>n < 0\<close> \<^verbatim>\<open>np.linspace\<close> raises ValueError; with \<open>n = 0\<close> the ring
  \<^verbatim>\<open>c0\<close> is an empty array of shape (0,), and adding \<^verbatim>\<open>vec\<close> of shape (3,) to
  it raises ValueError.
\<close>

definition cyl_faces :: "point \<Rightarrow> point \<Rightarrow> real \<Rightarrow> int \<Rightarrow> py_error + npvec list list" where
  "cyl_faces base vec r n =
     (if n \<le> 0 then Inl ValueError
      else
        let m = nat n;
            (x, y, z) = cyl_frame vec;
            t = linspace_open (2 * pi) m;
            c0 = map (\<lambda>th. vadd (fvec base)
                         (vscale (Fin r) (vadd (vscale (np_cos th) x) (vscale (np_sin th) y)))) t;
            c1 = map (\<lambda>v. vadd v (fvec vec)) c0
        in Inr (map (\<lambda>i. [c0 ! i, c0 ! ((i + 1) mod m), c1 ! ((i + 1) mod m), c1 ! i]) [0..<m]))"

subsection \<open>The frame as the specification words it\<close>

text \<open>
  The reference vector chosen by the test \<open>|axis \<cdot> up| > 0.99\<close> on the normalised axis:
  the secondary world axis \<open>(0,1,0)\<close> when the test holds, world-up \<open>(0,0,1)\<close> otherwise.
\<close>

definition cyl_ref_spec :: "npvec \<Rightarrow> npvec" where
  "cyl_ref_spec z =
     (if np_less (Fin 0.99) (np_abs (np_dot z (fvec (0, 0, 1)))) then np_cross (fvec (0, 1, 0)) z
      else np_cross (fvec (0, 0, 1)) z)"

subsection \<open>Orthonormal frames of real vectors\<close>

fun dot3 :: "point \<Rightarrow> point \<Rightarrow> real" where
  "dot3 (a0, a1, a2) (b0, b1, b2) = a0 * b0 + a1 * b1 + a2 * b2"

definition norm3 :: "point \<Rightarrow> real" where
  "norm3 v = sqrt (dot3 v v)"

fun cross3 :: "point \<Rightarrow> point \<Rightarrow> point" where
  "cross3 (a0, a1, a2) (b0, b1, b2) =
     (a1 * b2 - a2 * b1, a2 * b0 - a0 * b2, a0 * b1 - a1 * b0)"

text \<open>The vector divided by its length.\<close>

fun unit3 :: "point \<Rightarrow> point" where
  "unit3 (a0, a1, a2) =
     (a0 / norm3 (a0, a1, a2), a1 / norm3 (a0, a1, a2), a2 / norm3 (a0, a1, a2))"

text \<open>What line 60 computes on an array \<open>z\<close> of finite floats.\<close>

definition ref3 :: "point \<Rightarrow> point" where
  "ref3 z = (if \<bar>snd (snd z)\<bar> < 0.99 then cross3 (0, 0, 1) z else cross3 (0, 1, 0) z)"

definition orthonormal :: "point \<Rightarrow> point \<Rightarrow> point \<Rightarrow> bool" where
  "orthonormal x y z =
     (dot3 x x = 1 \<and> dot3 y y = 1 \<and> dot3 z z = 1 \<and>
      dot3 x y = 0 \<and> dot3 x z = 0 \<and> dot3 y z = 0)"

text \<open>Orthonormal up to a tolerance on each of the six dot products.\<close>

definition near_orthonormal :: "real \<Rightarrow> point \<Rightarrow> point \<Rightarrow> point \<Rightarrow> bool" where
  "near_orthonormal tol x y z =
     (\<bar>dot3 x x - 1\<bar> \<le> tol \<and> \<bar>dot3 y y - 1\<bar> \<le> tol \<and> \<bar>dot3 z z - 1\<bar> \<le> tol \<and>
      \<bar>dot3 x y\<bar> \<le> tol \<and> \<bar>dot3 x z\<bar> \<le> tol \<and> \<bar>dot3 y z\<bar> \<le> tol)"

text \<open>
  A magnitude that is zero or between two bounds. The range of axes considered: every
  component is zero or of magnitude between \<open>10^-50\<close> and \<open>10^50\<close>, and the axis is
  not the zero vector.
\<close>

definition mag_in :: "real \<Rightarrow> real \<Rightarrow> real \<Rightarrow> bool" where
  "mag_in lo hi v = (v = 0 \<or> (lo \<le> \<bar>v\<bar> \<and> \<bar>v\<bar> \<le> hi))"

definition in_range :: "real \<Rightarrow> bool" where
  "in_range v = mag_in (1 / 10 ^ 50) (10 ^ 50) v"

fun axis_ok :: "point \<Rightarrow> bool" where
  "axis_ok (a, b, c) = (in_range a \<and> in_range b \<and> in_range c \<and> (a, b, c) \<noteq> (0, 0, 0))"

text \<open>The largest magnitude of a coordinate; arrays of finite floats bounded by it.\<close>

fun max_abs :: "point \<Rightarrow> real" where
  "max_abs (a, b, c) = max \<bar>a\<bar> (max \<bar>b\<bar> \<bar>c\<bar>)"

definition vbounded :: "real \<Rightarrow> npvec \<Rightarrow> bool" where
  "vbounded B w = (\<exists>v. w = fvec v \<and> max_abs v \<le> B)"

section \<open>The comparison with the analytic profile (test_cube.py, lines 240-248)\<close>

text \<open>
  The sampled data are the rows of the file read at line 239; row \<open>i\<close> gives the pair
  \<open>(x[i], u_num[i])\<close> of its columns 0 and 2. \<^verbatim>\<open>np.loadtxt\<close> returns a
  two-dimensional array only for a file of two rows or more: with fewer rows
  \<^verbatim>\<open>data[:,0]\<close> raises IndexError. \<^verbatim>\<open>u_num.max()\<close> of an empty array raises
  ValueError.
\<close>

fun array_max :: "real list \<Rightarrow> py_error + real" where
  "array_max [] = Inl ValueError"
| "array_max (v # vs) = Inr (fold max vs v)"

text \<open>\<^verbatim>\<open>np.linalg.norm\<close> of an array of finite floats.\<close>

definition l2_norm :: "real list \<Rightarrow> real" where
  "l2_norm vs = sqrt (sum_list (map (\<lambda>v. v * v) vs))"

text \<open>Line 245: \<^verbatim>\<open>u_analytic = u_max * (1 - (x/5)**2)\<close>.\<close>

definition u_analytic :: "real \<Rightarrow> real list \<Rightarrow> real list" where
  "u_analytic u_max x = map (\<lambda>xi. u_max * (1 - (xi / 5)\<^sup>2)) x"

text \<open>
  Lines 240-246: the value \<^verbatim>\<open>err\<close>. The profile and the two norms are taken in
  exact arithmetic; the quotient is one of numpy scalars.
\<close>

definition relative_error :: "(real \<times> real) list \<Rightarrow> py_error + npfloat" where
  "relative_error data =
     (if length data < 2 then Inl IndexError
      else
        let x = map fst data;
            u_num = map snd data
        in case array_max u_num of
             Inl e \<Rightarrow> Inl e
           | Inr u_max \<Rightarrow>
               let u_an = u_analytic u_max x;
                   diff = map (\<lambda>(u, a). u - a) (zip u_num u_an)
               in Inr (np_div (Fin (l2_norm diff)) (Fin (l2_norm u_an))))"

text \<open>Line 248: \<^verbatim>\<open>assert err < 0.03\<close>; then the step returns.\<close>

definition validate :: "(real \<times> real) list \<Rightarrow> py_error + unit" where
  "validate data =
     (case relative_error data of
        Inl e \<Rightarrow> Inl e
      | Inr err \<Rightarrow> if np_less err (Fin 0.03) then Inr () else Inl AssertionError)"

section \<open>Properties of the geometry script\<close>

lemma classify_eq:
  "classify p =
     [ (''inlet'', InBoundingBox (3.9, 9.9, 20) (4.1, 10.1, 20.1)),
       (''outlet'', InBoundingBox (25.9, 9.9, 17.9) (26.1, 10.1, 20.1)),
       (''mesh'', InBoundingBox (mesh_x p - 0.06, - 0.1, - 0.1)
                                (mesh_x p + 0.06, ly p + 0.1, lz p + 0.1)),
       (''walls'', AllSurfaces) ]"
  by (simp add: classify_def geo_template_def)

lemma region_mesh:
  "region ''mesh'' p =
     Some (InBoundingBox (mesh_x p - 0.06, - 0.1, - 0.1) (mesh_x p + 0.06, ly p + 0.1, lz p + 0.1))"
  by (simp add: region_def classify_eq)

text \<open>
  C1. For every parameter value, the primitives and boolean operations of the script
  are, in this order: the Box of the chamber envelope, the Cylinder of the inlet, the
  Cylinder of the outlet, the Box of the mesh plate, one Difference and one Union. The
  sequence of kinds does not depend on the parameters.
\<close>

theorem geo_template_csg_order:
  "map kind_of (csg_instrs (geo_template p)) =
     [KBox, KCylinder, KCylinder, KBox, KDifference, KUnion]
   \<and> csg_instrs (geo_template p) =
     [ Box 1 (0, 0, 0) (lx p, ly p, lz p),
       Cylinder 2 (4, 10, 2) (0, 0, tube_len p) (tube_id p / 2),
       Cylinder 3 (26, 10, lz p) (0, 0, - out_depth p) (out_id p / 2),
       Box 4 (mesh_x p - mesh_thk p / 2, 0, 0) (mesh_thk p, ly p, lz p),
       BooleanDifference [1] True [2, 3] True,
       BooleanFuse [1] True [4] True ]"
  by (simp add: geo_template_def csg_instrs_def)

text \<open>
  C3, as stated, fails: in the script for the default parameters a tag is referred to
  after a boolean operation has consumed it.
\<close>

theorem use_after_consume_counterexample:
  "\<not> no_use_after_consume (geo_template params)"
  by (simp add: geo_template_def no_use_after_consume_def)

text \<open>
  C3, amended. For every parameter value both boolean operations carry \<^verbatim>\<open>Delete\<close>
  on both operand groups, so each consumes all its operands; the tool tags 2, 3 and 4
  are never referred to again, and the only references to a consumed tag are the three
  to tag 1, by which the script addresses the result of the preceding boolean
  operation: in BooleanFuse, in Physical Volume and in Characteristic Length.
\<close>

theorem geo_template_consumption:
  "delete_flags (geo_template p) = [(True, True), (True, True)]
   \<and> map consumes (csg_instrs (geo_template p)) = [[], [], [], [], [1, 2, 3], [1, 4]]
   \<and> stale_refs [] (geo_template p) = [1, 1, 1]"
  by (simp add: geo_template_def csg_instrs_def)

text \<open>
  C4, as stated, fails: with \<open>mesh_thk = 1\<close> the plate face \<open>x = mesh_x + mesh_thk / 2\<close>
  lies outside the x-extent of the mesh region's bounding box.
\<close>

theorem mesh_slab_counterexample:
  "\<not> plane_in_slab (region ''mesh'' (params\<lparr>mesh_thk := 1\<rparr>))
        (mesh_x (params\<lparr>mesh_thk := 1\<rparr>) + mesh_thk (params\<lparr>mesh_thk := 1\<rparr>) / 2)"
  by (simp add: region_mesh params_def)

text \<open>
  C4, amended. The mesh region's bounding box does not depend on \<open>mesh_thk\<close>. For
  \<open>|mesh_x| \<le> 10^6\<close> its x-extent is \<open>[mesh_x - 0.06, mesh_x + 0.06]\<close> to within
  \<open>10^-9\<close>; it contains both face planes of the plate whenever
  \<open>0 \<le> mesh_thk \<le> 0.12 - 10^-8\<close>, and both face planes lie outside it whenever
  \<open>mesh_thk \<ge> 0.12 + 10^-8\<close>.
\<close>

theorem mesh_slab_fixed_margin:
  "region ''mesh'' (p\<lparr>mesh_thk := t\<rparr>) = region ''mesh'' p
   \<and> (\<bar>mesh_x p\<bar> \<le> 10 ^ 6 \<longrightarrow>
        (\<exists>x0 x1. map_option x_extent (region ''mesh'' p) = Some (Some (x0, x1))
           \<and> \<bar>x0 - (mesh_x p - 0.06)\<bar> \<le> 1 / 10 ^ 9
           \<and> \<bar>x1 - (mesh_x p + 0.06)\<bar> \<le> 1 / 10 ^ 9)
        \<and> (0 \<le> mesh_thk p \<and> mesh_thk p \<le> 0.12 - 1 / 10 ^ 8 \<longrightarrow>
             plane_in_slab (region ''mesh'' p) (mesh_x p - mesh_thk p / 2) \<and>
             plane_in_slab (region ''mesh'' p) (mesh_x p + mesh_thk p / 2))
        \<and> (0.12 + 1 / 10 ^ 8 \<le> mesh_thk p \<longrightarrow>
             \<not> plane_in_slab (region ''mesh'' p) (mesh_x p - mesh_thk p / 2) \<and>
             \<not> plane_in_slab (region ''mesh'' p) (mesh_x p + mesh_thk p / 2)))"
  by (auto simp add: region_mesh)

theorem mesh_slab_fixed_margin_witness:
  "\<bar>mesh_x params\<bar> \<le> 10 ^ 6
   \<and> 0 \<le> mesh_thk params \<and> mesh_thk params \<le> 0.12 - 1 / 10 ^ 8
   \<and> plane_in_slab (region ''mesh'' params) (mesh_x params - mesh_thk params / 2)
   \<and> plane_in_slab (region ''mesh'' params) (mesh_x params + mesh_thk params / 2)
   \<and> 0.12 + 1 / 10 ^ 8 \<le> mesh_thk (params\<lparr>mesh_thk := 1\<rparr>)
   \<and> \<not> plane_in_slab (region ''mesh'' (params\<lparr>mesh_thk := 1\<rparr>))
         (mesh_x (params\<lparr>mesh_thk := 1\<rparr>) - mesh_thk (params\<lparr>mesh_thk := 1\<rparr>) / 2)"
  using mesh_slab_fixed_margin [where p = params and t = 0]
    mesh_slab_fixed_margin [where p = "params\<lparr>mesh_thk := 1\<rparr>" and t = 0]
  by (simp add: params_def)

text \<open>
  C6, as stated, fails: the walls region has no bounding box, also for the default
  parameters; and the parameters are not validated, so that with \<open>ly = -1\<close> the
  bounding box of the mesh region is empty.
\<close>

theorem region_boxes_counterexample:
  "map (bbox_nonempty \<circ> snd) (classify params) = [Some True, Some True, Some True, None]
   \<and> map (bbox_nonempty \<circ> snd) (classify (params\<lparr>ly := - 1\<rparr>))
       = [Some True, Some True, Some False, None]"
  by (simp add: classify_eq params_def)

text \<open>
  C6, amended. For every parameter value the regions are declared in the order inlet,
  outlet, mesh, walls, and walls, declared last, is the wildcard selector, which has no
  bounding box. For \<open>|mesh_x| \<le> 10^6\<close>, \<open>ly \<ge> 0\<close> and \<open>lz \<ge> 0\<close> the bounding boxes
  of inlet, outlet and mesh are non-empty, each with positive volume.
\<close>

theorem region_boxes_nonempty:
  "map fst (classify p) = [''inlet'', ''outlet'', ''mesh'', ''walls'']
   \<and> snd (last (classify p)) = AllSurfaces
   \<and> (\<bar>mesh_x p\<bar> \<le> 10 ^ 6 \<and> 0 \<le> ly p \<and> 0 \<le> lz p \<longrightarrow>
        map (bbox_nonempty \<circ> snd) (classify p) = [Some True, Some True, Some True, None]
      \<and> map (map_option (\<lambda>v. 0 < v) \<circ> bbox_volume \<circ> snd) (classify p)
          = [Some True, Some True, Some True, None])"
  by (simp add: classify_eq)

theorem region_boxes_nonempty_witness:
  "\<bar>mesh_x params\<bar> \<le> 10 ^ 6 \<and> 0 \<le> ly params \<and> 0 \<le> lz params
   \<and> map fst (classify params) = [''inlet'', ''outlet'', ''mesh'', ''walls'']
   \<and> map (bbox_nonempty \<circ> snd) (classify params) = [Some True, Some True, Some True, None]
   \<and> map (map_option (\<lambda>v. 0 < v) \<circ> bbox_volume \<circ> snd) (classify params)
       = [Some True, Some True, Some True, None]"
  using region_boxes_nonempty [of params] by (simp add: params_def)

text \<open>
  C7. With the default parameters the inlet region's bounding box contains the point
  \<open>(4, 10, 20)\<close>, the outlet region's bounding box contains \<open>(26, 10, 18)\<close>, and the
  mesh region's bounding box straddles the plane \<open>x = 10\<close> with a margin of at least
  \<open>0.06\<close> on each side.
\<close>

theorem default_regions:
  "region ''inlet'' params = Some (InBoundingBox (3.9, 9.9, 20) (4.1, 10.1, 20.1))
   \<and> bbox_contains (InBoundingBox (3.9, 9.9, 20) (4.1, 10.1, 20.1)) (4, 10, 20)
   \<and> region ''outlet'' params = Some (InBoundingBox (25.9, 9.9, 17.9) (26.1, 10.1, 20.1))
   \<and> bbox_contains (InBoundingBox (25.9, 9.9, 17.9) (26.1, 10.1, 20.1)) (26, 10, 18)
   \<and> straddles_x (region ''mesh'' params) 10 0.06"
  by (simp add: region_def classify_eq params_def)

text \<open>
  C2 on the code. With the default parameters the two faces drawn for the plate have
  all their vertices in the planes \<open>z = 0\<close> and \<open>z = lz = 20\<close>, and each face has
  vertices on both planes \<open>x = 9.945\<close> and \<open>x = 10.055\<close>: they are the bottom and the
  top face of the plate box, not the two faces \<open>x = mesh_x - mesh_thk / 2\<close> and
  \<open>x = mesh_x + mesh_thk / 2\<close>.
\<close>

theorem plate_faces_default:
  "map zs_of (plate_faces params) = [[0, 0, 0, 0], [20, 20, 20, 20]]
   \<and> map xs_of (plate_faces params)
       = [[9.945, 10.055, 10.055, 9.945], [9.945, 10.055, 10.055, 9.945]]"
  by (simp add: plate_faces_def plate_def params_def xs_of_def zs_of_def)

section \<open>Properties of the range of doubles\<close>

lemma dbl_zero: "dbl 0 = Fin 0"
  by (simp add: dbl_def)

lemma dbl_one: "dbl 1 = Fin 1"
  by (simp add: dbl_def)

lemma dbl_id:
  assumes "1 / 10 ^ 300 \<le> \<bar>x\<bar>" and "\<bar>x\<bar> \<le> 10 ^ 300"
  shows "dbl x = Fin x"
proof -
  have "(10::real) ^ 300 < 2 ^ 1024 - 2 ^ 970" by simp
  then have a: "\<not> 2 ^ 1024 - 2 ^ 970 \<le> \<bar>x\<bar>" using assms(2) by linarith
  have "(1::real) / 2 ^ 1075 < 1 / 10 ^ 300" by simp
  then have b: "\<not> \<bar>x\<bar> \<le> 1 / 2 ^ 1075" using assms(1) by linarith
  show ?thesis unfolding dbl_def using a b by (simp only: if_False)
qed

lemma dbl_mag:
  assumes "mag_in lo hi x" and "1 / 10 ^ 300 \<le> lo" and "hi \<le> 10 ^ 300"
  shows "dbl x = Fin x"
proof (cases "x = 0")
  case True
  then show ?thesis by (simp add: dbl_zero)
next
  case False
  then have "lo \<le> \<bar>x\<bar>" "\<bar>x\<bar> \<le> hi" using assms(1) by (simp_all add: mag_in_def)
  then show ?thesis using assms(2,3) by (intro dbl_id) linarith+
qed

lemma dbl_fin:
  assumes "\<bar>x\<bar> \<le> 10 ^ 300"
  shows "\<exists>y. dbl x = Fin y \<and> \<bar>y\<bar> \<le> \<bar>x\<bar>"
proof -
  have "(10::real) ^ 300 < 2 ^ 1024 - 2 ^ 970" by simp
  then have a: "\<not> 2 ^ 1024 - 2 ^ 970 \<le> \<bar>x\<bar>" using assms by linarith
  show ?thesis
  proof (cases "\<bar>x\<bar> \<le> 1 / 2 ^ 1075")
    case True
    then have "dbl x = Fin 0" unfolding dbl_def using a by (simp only: if_False if_True)
    then show ?thesis by simp
  next
    case False
    then have "dbl x = Fin x" unfolding dbl_def using a by (simp only: if_False)
    then show ?thesis by simp
  qed
qed

lemma mag_in_mult:
  assumes "mag_in l1 h1 a" and "mag_in l2 h2 b" and "0 \<le> l1" and "0 \<le> l2"
  shows "mag_in (l1 * l2) (h1 * h2) (a * b)"
proof (cases "a = 0 \<or> b = 0")
  case True
  then show ?thesis by (auto simp add: mag_in_def)
next
  case False
  then have a: "l1 \<le> \<bar>a\<bar>" "\<bar>a\<bar> \<le> h1" and b: "l2 \<le> \<bar>b\<bar>" "\<bar>b\<bar> \<le> h2"
    using assms(1,2) by (simp_all add: mag_in_def)
  have "l1 * l2 \<le> \<bar>a\<bar> * \<bar>b\<bar>" using a b assms(3,4) by (intro mult_mono) simp_all
  moreover have "\<bar>a\<bar> * \<bar>b\<bar> \<le> h1 * h2" using a b by (intro mult_mono) simp_all
  ultimately show ?thesis by (simp add: mag_in_def abs_mult)
qed

lemma mag_in_divide:
  assumes "mag_in l1 h1 a" and "l2 \<le> b" and "b \<le> h2" and "0 < l2" and "0 \<le> l1"
  shows "mag_in (l1 / h2) (h1 / l2) (a / b)"
proof (cases "a = 0")
  case True
  then show ?thesis by (simp add: mag_in_def)
next
  case False
  then have a: "l1 \<le> \<bar>a\<bar>" "\<bar>a\<bar> \<le> h1" using assms(1) by (simp_all add: mag_in_def)
  have bpos: "0 < b" using assms(2,4) by linarith
  have "l1 / h2 \<le> \<bar>a\<bar> / b"
    using a assms bpos by (intro frac_le) simp_all
  moreover have "\<bar>a\<bar> / b \<le> h1 / l2"
    using a assms bpos by (intro frac_le) simp_all
  ultimately show ?thesis using bpos by (simp add: mag_in_def)
qed

lemma mag_in_minus: "mag_in lo hi (- a) = mag_in lo hi a"
  by (simp add: mag_in_def)

lemma mag_in_add_nonneg:
  assumes "mag_in lo h1 a" and "mag_in lo h2 b" and "0 \<le> a" and "0 \<le> b" and "0 \<le> h1" and "0 \<le> h2"
  shows "mag_in lo (h1 + h2) (a + b)"
  using assms by (auto simp add: mag_in_def)

section \<open>Properties of the comparison with the analytic profile\<close>

text \<open>
  C9. When the computed relative error exceeds \<open>0.03\<close> the validation step ends in
  the assertion failure, and when it is below \<open>0.03\<close> the step completes; the
  outcome is a function of the one comparison (there is no second attempt and no other
  tolerance).
\<close>

theorem validate_threshold:
  assumes "relative_error data = Inr (Fin e)"
  shows "(0.03 < e \<longrightarrow> validate data = Inl AssertionError)
       \<and> (e < 0.03 \<longrightarrow> validate data = Inr ())"
  using assms by (simp add: validate_def)

theorem validate_threshold_witness:
  "relative_error [(0, 1), (5, 1)] = Inr (Fin 1) \<and> (0.03::real) < 1
     \<and> validate [(0, 1), (5, 1)] = Inl AssertionError
   \<and> relative_error [(0, 1), (5, 0)] = Inr (Fin 0) \<and> (0::real) < 0.03
     \<and> validate [(0, 1), (5, 0)] = Inr ()"
proof -
  have a: "relative_error [(0, 1), (5, 1)] = Inr (Fin 1)"
    by (simp add: relative_error_def u_analytic_def l2_norm_def dbl_one)
  have b: "relative_error [(0, 1), (5, 0)] = Inr (Fin 0)"
    by (simp add: relative_error_def u_analytic_def l2_norm_def dbl_zero)
  show ?thesis
    using validate_threshold [OF a] validate_threshold [OF b] a b by simp
qed

section \<open>Properties of the cylinder frame and faces\<close>

subsection \<open>Real vectors\<close>

lemma dot3_self_pos: "v \<noteq> (0, 0, 0) \<Longrightarrow> 0 < dot3 v v"
proof (cases v)
  case (fields a b c)
  assume "v \<noteq> (0, 0, 0)"
  then have "a \<noteq> 0 \<or> b \<noteq> 0 \<or> c \<noteq> 0" using fields by simp
  then have "0 < a * a + b * b + c * c"
    by (metis add_pos_nonneg add_nonneg_pos zero_le_square not_real_square_gt_zero add_nonneg_nonneg)
  then show ?thesis using fields by simp
qed

lemma norm3_pos: "v \<noteq> (0, 0, 0) \<Longrightarrow> 0 < norm3 v"
  by (simp add: norm3_def dot3_self_pos)

lemma unit3_unit:
  assumes "v \<noteq> (0, 0, 0)"
  shows "dot3 (unit3 v) (unit3 v) = 1"
proof (cases v)
  case (fields a b c)
  let ?n = "norm3 (a, b, c)"
  have pos: "0 < dot3 (a, b, c) (a, b, c)" using dot3_self_pos [OF assms] fields by simp
  have n2: "?n * ?n = a * a + b * b + c * c"
    using pos by (simp add: norm3_def)
  have nz: "?n \<noteq> 0" using norm3_pos [OF assms] fields by simp
  have "dot3 (unit3 (a, b, c)) (unit3 (a, b, c)) = (a * a + b * b + c * c) / (?n * ?n)"
    by (simp add: add_divide_distrib)
  also have "\<dots> = 1" using nz by (simp add: n2 [symmetric])
  finally show ?thesis using fields by simp
qed

lemma cross3_dot_left: "dot3 (cross3 u v) u = 0"
  by (cases u, cases v) (simp add: algebra_simps)

lemma cross3_dot_right: "dot3 (cross3 u v) v = 0"
  by (cases u, cases v) (simp add: algebra_simps)

lemma dot3_commute: "dot3 u v = dot3 v u"
  by (cases u, cases v) (simp add: algebra_simps)

lemma cross3_lagrange:
  "dot3 (cross3 u v) (cross3 u v) = dot3 u u * dot3 v v - (dot3 u v)\<^sup>2"
  by (cases u, cases v) (simp add: algebra_simps power2_eq_square)

lemma dot3_unit3_left: "dot3 (unit3 u) v = dot3 u v / norm3 u"
  by (cases u, cases v) (simp add: add_divide_distrib)

lemma ref3_dot: "dot3 (ref3 z) z = 0"
  by (simp add: ref3_def cross3_dot_right)

lemma ref3_large:
  assumes "dot3 z z = 1"
  shows "0.0199 \<le> dot3 (ref3 z) (ref3 z)"
proof (cases z)
  case (fields z0 z1 z2)
  have unit: "z0 * z0 + z1 * z1 + z2 * z2 = 1" using assms fields by simp
  show ?thesis
  proof (cases "\<bar>z2\<bar> < 0.99")
    case True
    then have "0 < (0.99 - z2) * (0.99 + z2)"
      by (intro mult_pos_pos) (simp_all add: abs_less_iff)
    then have "z2 * z2 < 0.9801" by (simp add: algebra_simps)
    then have "0.0199 \<le> z1 * z1 + z0 * z0" using unit by simp
    then show ?thesis using True fields by (simp add: ref3_def)
  next
    case False
    then have "0.99 \<le> \<bar>z2\<bar>" by simp
    then have "0.99 * 0.99 \<le> \<bar>z2\<bar> * \<bar>z2\<bar>"
      by (intro mult_mono) simp_all
    then have "0.9801 \<le> z2 * z2" by simp
    moreover have "z2 * z2 \<le> z2 * z2 + z0 * z0" by simp
    ultimately have "0.9801 \<le> z2 * z2 + z0 * z0" by (rule order_trans)
    then have "0.0199 \<le> z2 * z2 + z0 * z0" by simp
    then show ?thesis using False fields by (simp add: ref3_def)
  qed
qed

lemma ref3_norm:
  assumes "dot3 z z = 1"
  shows "0.14 < norm3 (ref3 z)"
proof -
  have "(0.14::real)\<^sup>2 < dot3 (ref3 z) (ref3 z)"
    using ref3_large [OF assms] by (simp add: power2_eq_square)
  then show ?thesis unfolding norm3_def by (rule real_less_rsqrt)
qed

lemma ref3_nonzero:
  assumes "dot3 z z = 1"
  shows "ref3 z \<noteq> (0, 0, 0)"
proof
  assume "ref3 z = (0, 0, 0)"
  then have "dot3 (ref3 z) (ref3 z) = 0" by simp
  then show False using ref3_large [OF assms] by simp
qed

lemma frame_orthonormal:
  assumes "vec \<noteq> (0, 0, 0)"
  shows "orthonormal (unit3 (ref3 (unit3 vec)))
           (cross3 (unit3 vec) (unit3 (ref3 (unit3 vec)))) (unit3 vec)"
proof -
  let ?z = "unit3 vec"
  let ?x = "unit3 (ref3 ?z)"
  let ?y = "cross3 ?z ?x"
  have zz: "dot3 ?z ?z = 1" using assms by (rule unit3_unit)
  have xx: "dot3 ?x ?x = 1" using ref3_nonzero [OF zz] by (rule unit3_unit)
  have xz: "dot3 ?x ?z = 0" by (simp add: dot3_unit3_left ref3_dot)
  have zx: "dot3 ?z ?x = 0" using xz by (simp add: dot3_commute)
  have yy: "dot3 ?y ?y = 1" by (simp add: cross3_lagrange zz xx zx)
  have xy: "dot3 ?x ?y = 0" using cross3_dot_right [of ?z ?x] by (simp add: dot3_commute)
  have yz: "dot3 ?y ?z = 0" by (rule cross3_dot_left)
  show ?thesis unfolding orthonormal_def using xx yy zz xy xz yz by simp
qed

lemma norm3_boundary_axis: "norm3 (sqrt 199, 0, 99) = 100"
proof -
  have "dot3 (sqrt 199, 0, 99) (sqrt 199, 0, 99) = 100\<^sup>2" by simp
  then have "norm3 (sqrt 199, 0, 99) = sqrt (100\<^sup>2)" by (simp only: norm3_def)
  then show ?thesis by simp
qed

subsection \<open>Bounds on unit vectors\<close>

lemma unit_components:
  assumes "dot3 (a, b, c) (a, b, c) = 1"
  shows "\<bar>a\<bar> \<le> 1" and "\<bar>b\<bar> \<le> 1" and "\<bar>c\<bar> \<le> 1"
proof -
  have s: "a * a + b * b + c * c = 1" using assms by simp
  have "a * a \<le> 1" using s zero_le_square [of b] zero_le_square [of c] by linarith
  then show "\<bar>a\<bar> \<le> 1" by (simp add: abs_square_le_1 [symmetric] power2_eq_square)
  have "b * b \<le> 1" using s zero_le_square [of a] zero_le_square [of c] by linarith
  then show "\<bar>b\<bar> \<le> 1" by (simp add: abs_square_le_1 [symmetric] power2_eq_square)
  have "c * c \<le> 1" using s zero_le_square [of a] zero_le_square [of b] by linarith
  then show "\<bar>c\<bar> \<le> 1" by (simp add: abs_square_le_1 [symmetric] power2_eq_square)
qed

lemma max_abs_unit: "dot3 v v = 1 \<Longrightarrow> max_abs v \<le> 1"
  by (cases v) (simp add: unit_components del: dot3.simps)

subsection \<open>numpy operations within the range of doubles\<close>

lemma np_dot_self_fvec:
  assumes "mag_in lo hi a" and "mag_in lo hi b" and "mag_in lo hi c"
    and "0 \<le> lo" and "0 \<le> hi" and "1 / 10 ^ 300 \<le> lo * lo" and "3 * (hi * hi) \<le> 10 ^ 300"
  shows "np_dot (fvec (a, b, c)) (fvec (a, b, c)) = Fin (dot3 (a, b, c) (a, b, c))"
proof -
  have hh: "0 \<le> hi * hi" using assms(5) by simp
  have aa: "mag_in (lo * lo) (hi * hi) (a * a)" using assms(1,1,4,4) by (rule mag_in_mult)
  have bb: "mag_in (lo * lo) (hi * hi) (b * b)" using assms(2,2,4,4) by (rule mag_in_mult)
  have cc: "mag_in (lo * lo) (hi * hi) (c * c)" using assms(3,3,4,4) by (rule mag_in_mult)
  have ab: "mag_in (lo * lo) (hi * hi + hi * hi) (a * a + b * b)"
    using aa bb by (rule mag_in_add_nonneg) (simp_all add: hh)
  have abc: "mag_in (lo * lo) (hi * hi + hi * hi + hi * hi) (a * a + b * b + c * c)"
    using ab cc by (rule mag_in_add_nonneg) (simp_all add: hh)
  have 1: "dbl (a * a) = Fin (a * a)" using aa assms(6) by (rule dbl_mag) (use assms(7) hh in linarith)
  have 2: "dbl (b * b) = Fin (b * b)" using bb assms(6) by (rule dbl_mag) (use assms(7) hh in linarith)
  have 3: "dbl (c * c) = Fin (c * c)" using cc assms(6) by (rule dbl_mag) (use assms(7) hh in linarith)
  have 4: "dbl (a * a + b * b) = Fin (a * a + b * b)"
    using ab assms(6) by (rule dbl_mag) (use assms(7) hh in linarith)
  have 5: "dbl (a * a + b * b + c * c) = Fin (a * a + b * b + c * c)"
    using abc assms(6) by (rule dbl_mag) (use assms(7) hh in linarith)
  show ?thesis by (simp add: 1 2 3 4 5)
qed

lemma np_norm_fvec:
  assumes "mag_in lo hi a" and "mag_in lo hi b" and "mag_in lo hi c"
    and "0 \<le> lo" and "0 \<le> hi" and "1 / 10 ^ 300 \<le> lo * lo" and "3 * (hi * hi) \<le> 10 ^ 300"
  shows "np_norm (fvec (a, b, c)) = Fin (norm3 (a, b, c))"
proof -
  have "0 \<le> a * a + b * b + c * c" by simp
  then have "\<not> a * a + b * b + c * c < 0" by (simp only: not_less)
  then show ?thesis
    unfolding np_norm_def np_dot_self_fvec [OF assms] by (simp add: norm3_def)
qed

lemma vdiv_fvec:
  assumes "mag_in lo hi a" and "mag_in lo hi b" and "mag_in lo hi c"
    and "l2 \<le> m" and "m \<le> h2" and "0 < l2" and "0 \<le> lo"
    and "1 / 10 ^ 300 \<le> lo / h2" and "hi / l2 \<le> 10 ^ 300"
  shows "vdiv (fvec (a, b, c)) (Fin m) = fvec (a / m, b / m, c / m)"
proof -
  have m: "m \<noteq> 0" using assms(4,6) by linarith
  have 1: "dbl (a / m) = Fin (a / m)"
    using mag_in_divide [OF assms(1,4,5,6,7)] assms(8,9) by (rule dbl_mag)
  have 2: "dbl (b / m) = Fin (b / m)"
    using mag_in_divide [OF assms(2,4,5,6,7)] assms(8,9) by (rule dbl_mag)
  have 3: "dbl (c / m) = Fin (c / m)"
    using mag_in_divide [OF assms(3,4,5,6,7)] assms(8,9) by (rule dbl_mag)
  show ?thesis using m by (simp add: 1 2 3)
qed

lemma np_cross_fvec:
  assumes "dbl (a1 * b2) = Fin (a1 * b2)" and "dbl (a2 * b1) = Fin (a2 * b1)"
    and "dbl (a2 * b0) = Fin (a2 * b0)" and "dbl (a0 * b2) = Fin (a0 * b2)"
    and "dbl (a0 * b1) = Fin (a0 * b1)" and "dbl (a1 * b0) = Fin (a1 * b0)"
    and "dbl (a1 * b2 - a2 * b1) = Fin (a1 * b2 - a2 * b1)"
    and "dbl (a2 * b0 - a0 * b2) = Fin (a2 * b0 - a0 * b2)"
    and "dbl (a0 * b1 - a1 * b0) = Fin (a0 * b1 - a1 * b0)"
  shows "np_cross (fvec (a0, a1, a2)) (fvec (b0, b1, b2)) = fvec (cross3 (a0, a1, a2) (b0, b1, b2))"
  using assms by (simp add: np_sub_def)

subsection \<open>The frame of an axis in range\<close>

lemma axis_ok_nonzero: "axis_ok v \<Longrightarrow> v \<noteq> (0, 0, 0)"
  by (cases v) simp

lemma axis_norm_bounds:
  assumes "axis_ok (a, b, c)"
  shows "1 / 10 ^ 50 \<le> norm3 (a, b, c)" and "norm3 (a, b, c) \<le> 2 * 10 ^ 50"
proof -
  have ra: "mag_in (1 / 10 ^ 50) (10 ^ 50) a" and rb: "mag_in (1 / 10 ^ 50) (10 ^ 50) b"
    and rc: "mag_in (1 / 10 ^ 50) (10 ^ 50) c"
    using assms by (simp_all add: in_range_def)
  have sq: "mag_in (1 / 10 ^ 50 * (1 / 10 ^ 50)) (10 ^ 50 * 10 ^ 50) (t * t)"
    if "mag_in (1 / 10 ^ 50) (10 ^ 50) t" for t :: real
    using that that by (rule mag_in_mult) simp_all
  have up: "t * t \<le> 10 ^ 100" if "mag_in (1 / 10 ^ 50) (10 ^ 50) t" for t :: real
    using sq [OF that] by (auto simp add: mag_in_def abs_mult)
  have low: "1 / 10 ^ 100 \<le> t * t" if "mag_in (1 / 10 ^ 50) (10 ^ 50) t" and "t \<noteq> 0" for t :: real
    using sq [OF that(1)] that(2) by (auto simp add: mag_in_def abs_mult)
  have nz: "a \<noteq> 0 \<or> b \<noteq> 0 \<or> c \<noteq> 0" using assms by simp
  have "1 / 10 ^ 100 \<le> a * a + b * b + c * c"
    using nz low [OF ra] low [OF rb] low [OF rc]
      zero_le_square [of a] zero_le_square [of b] zero_le_square [of c]
    by (elim disjE) linarith+
  then have "(1 / 10 ^ 50)\<^sup>2 \<le> dot3 (a, b, c) (a, b, c)"
    by (simp add: power2_eq_square)
  then show "1 / 10 ^ 50 \<le> norm3 (a, b, c)"
    unfolding norm3_def by (rule real_le_rsqrt)
  have "a * a + b * b + c * c \<le> 3 * 10 ^ 100"
    using up [OF ra] up [OF rb] up [OF rc] by linarith
  then have "dot3 (a, b, c) (a, b, c) \<le> (2 * 10 ^ 50)\<^sup>2"
    by (simp add: power2_eq_square)
  then show "norm3 (a, b, c) \<le> 2 * 10 ^ 50"
    unfolding norm3_def by (intro real_le_lsqrt) simp_all
qed

lemma cyl_axis_fvec:
  assumes "axis_ok vec"
  shows "cyl_axis vec = fvec (unit3 vec)"
proof (cases vec)
  case (fields a b c)
  have ok: "axis_ok (a, b, c)" using assms fields by simp
  have ra: "mag_in (1 / 10 ^ 50) (10 ^ 50) a" and rb: "mag_in (1 / 10 ^ 50) (10 ^ 50) b"
    and rc: "mag_in (1 / 10 ^ 50) (10 ^ 50) c"
    using ok by (simp_all add: in_range_def)
  have n: "np_norm (fvec (a, b, c)) = Fin (norm3 (a, b, c))"
    using ra rb rc by (rule np_norm_fvec) simp_all
  have "vdiv (fvec (a, b, c)) (Fin (norm3 (a, b, c)))
      = fvec (a / norm3 (a, b, c), b / norm3 (a, b, c), c / norm3 (a, b, c))"
    using ra rb rc axis_norm_bounds [OF ok] by (rule vdiv_fvec) simp_all
  then show ?thesis using fields by (simp add: cyl_axis_def n del: fvec.simps vdiv.simps)
qed

text \<open>The components of the normalised axis: zero or between \<open>5 * 10^-101\<close> and \<open>1\<close>.\<close>

lemma unit3_mag:
  assumes "axis_ok vec" and "unit3 vec = (z0, z1, z2)"
  shows "mag_in (1 / (2 * 10 ^ 100)) 1 z0" and "mag_in (1 / (2 * 10 ^ 100)) 1 z1"
    and "mag_in (1 / (2 * 10 ^ 100)) 1 z2"
proof -
  obtain a b c where v: "vec = (a, b, c)" by (cases vec)
  have ok: "axis_ok (a, b, c)" using assms(1) v by simp
  have ra: "mag_in (1 / 10 ^ 50) (10 ^ 50) a" and rb: "mag_in (1 / 10 ^ 50) (10 ^ 50) b"
    and rc: "mag_in (1 / 10 ^ 50) (10 ^ 50) c"
    using ok by (simp_all add: in_range_def)
  have u: "dot3 (z0, z1, z2) (z0, z1, z2) = 1"
    using unit3_unit [OF axis_ok_nonzero [OF assms(1)]] assms(2) by simp
  have z: "z0 = a / norm3 (a, b, c)" "z1 = b / norm3 (a, b, c)" "z2 = c / norm3 (a, b, c)"
    using assms(2) v by simp_all
  have q: "mag_in (1 / 10 ^ 50 / (2 * 10 ^ 50)) (10 ^ 50 / (1 / 10 ^ 50)) (t / norm3 (a, b, c))"
    if "mag_in (1 / 10 ^ 50) (10 ^ 50) t" for t
    using that axis_norm_bounds [OF ok] by (rule mag_in_divide) simp_all
  have w: "mag_in (1 / (2 * 10 ^ 100)) 1 s"
    if "mag_in (1 / 10 ^ 50 / (2 * 10 ^ 50)) (10 ^ 50 / (1 / 10 ^ 50)) s" and "\<bar>s\<bar> \<le> 1" for s :: real
    using that by (auto simp add: mag_in_def)
  show "mag_in (1 / (2 * 10 ^ 100)) 1 z0"
    unfolding z using q [OF ra] unit_components(1) [OF u] by (intro w) (simp_all add: z)
  show "mag_in (1 / (2 * 10 ^ 100)) 1 z1"
    unfolding z using q [OF rb] unit_components(2) [OF u] by (intro w) (simp_all add: z)
  show "mag_in (1 / (2 * 10 ^ 100)) 1 z2"
    unfolding z using q [OF rc] unit_components(3) [OF u] by (intro w) (simp_all add: z)
qed

lemma dbl_zmag:
  assumes "mag_in (1 / (2 * 10 ^ 100)) 1 t"
  shows "dbl t = Fin t" and "dbl (- t) = Fin (- t)"
proof -
  show "dbl t = Fin t" using assms by (rule dbl_mag) simp_all
  have "mag_in (1 / (2 * 10 ^ 100)) 1 (- t)" using assms by (simp add: mag_in_minus)
  then show "dbl (- t) = Fin (- t)" by (rule dbl_mag) simp_all
qed

lemma cyl_ref_fvec:
  assumes "mag_in (1 / (2 * 10 ^ 100)) 1 z0" and "mag_in (1 / (2 * 10 ^ 100)) 1 z1"
    and "mag_in (1 / (2 * 10 ^ 100)) 1 z2"
  shows "cyl_ref (fvec (z0, z1, z2)) = fvec (ref3 (z0, z1, z2))"
  by (simp add: cyl_ref_def ref3_def np_sub_def dbl_zero
        dbl_zmag [OF assms(1)] dbl_zmag [OF assms(2)] dbl_zmag [OF assms(3)])

lemma ref3_cases:
  "ref3 (z0, z1, z2) = (if \<bar>z2\<bar> < 0.99 then (- z1, z0, 0) else (z2, 0, - z0))"
  by (simp add: ref3_def)

lemma ref3_norm_le:
  assumes "dot3 z z = 1"
  shows "norm3 (ref3 z) \<le> 1"
proof (cases z)
  case (fields z0 z1 z2)
  have u: "z0 * z0 + z1 * z1 + z2 * z2 = 1" using assms fields by simp
  have a: "z1 * z1 + z0 * z0 \<le> 1" using u zero_le_square [of z2] by linarith
  have b: "z2 * z2 + z0 * z0 \<le> 1" using u zero_le_square [of z1] by linarith
  have "dot3 (ref3 (z0, z1, z2)) (ref3 (z0, z1, z2)) \<le> 1"
    by (simp add: ref3_cases a b)
  then show ?thesis using fields by (simp add: norm3_def)
qed

lemma ref3_mag:
  assumes "mag_in lo hi z0" and "mag_in lo hi z1" and "mag_in lo hi z2"
    and "ref3 (z0, z1, z2) = (r0, r1, r2)"
  shows "mag_in lo hi r0" and "mag_in lo hi r1" and "mag_in lo hi r2"
  using assms by (auto simp add: ref3_cases mag_in_minus mag_in_def split: if_splits)

lemma cyl_x_fvec:
  assumes "mag_in (1 / (2 * 10 ^ 100)) 1 z0" and "mag_in (1 / (2 * 10 ^ 100)) 1 z1"
    and "mag_in (1 / (2 * 10 ^ 100)) 1 z2" and "dot3 (z0, z1, z2) (z0, z1, z2) = 1"
  shows "vdiv (fvec (ref3 (z0, z1, z2))) (np_norm (fvec (ref3 (z0, z1, z2))))
       = fvec (unit3 (ref3 (z0, z1, z2)))"
proof -
  obtain r0 r1 r2 where r: "ref3 (z0, z1, z2) = (r0, r1, r2)" by (cases "ref3 (z0, z1, z2)")
  note m = ref3_mag [OF assms(1,2,3) r]
  have lo: "0.14 \<le> norm3 (r0, r1, r2)" using ref3_norm [OF assms(4)] r by simp
  have hi: "norm3 (r0, r1, r2) \<le> 1" using ref3_norm_le [OF assms(4)] r by simp
  have n: "np_norm (fvec (r0, r1, r2)) = Fin (norm3 (r0, r1, r2))"
    using m by (rule np_norm_fvec) simp_all
  have "vdiv (fvec (r0, r1, r2)) (Fin (norm3 (r0, r1, r2)))
      = fvec (r0 / norm3 (r0, r1, r2), r1 / norm3 (r0, r1, r2), r2 / norm3 (r0, r1, r2))"
    using m lo hi by (rule vdiv_fvec) simp_all
  then show ?thesis by (simp add: r n del: fvec.simps vdiv.simps)
qed

text \<open>Products of a component of \<open>z\<close> and a component of \<open>x\<close>.\<close>

lemma dbl_zx:
  assumes "mag_in (1 / (2 * 10 ^ 100)) 1 s" and "mag_in (1 / (2 * 10 ^ 100)) 1 t"
    and "0.14 \<le> m" and "m \<le> 1"
  shows "dbl (s * (t / m)) = Fin (s * (t / m))"
    and "dbl (- (s * (t / m))) = Fin (- (s * (t / m)))"
    and "mag_in (1 / (2 * 10 ^ 100) * (1 / (2 * 10 ^ 100) / 1)) (1 * (1 / 0.14)) (s * (t / m))"
proof -
  have q: "mag_in (1 / (2 * 10 ^ 100) / 1) (1 / 0.14) (t / m)"
    using assms(2,3,4) by (rule mag_in_divide) simp_all
  show p: "mag_in (1 / (2 * 10 ^ 100) * (1 / (2 * 10 ^ 100) / 1)) (1 * (1 / 0.14)) (s * (t / m))"
    using assms(1) q by (rule mag_in_mult) simp_all
  then show "dbl (s * (t / m)) = Fin (s * (t / m))" by (rule dbl_mag) simp_all
  have "mag_in (1 / (2 * 10 ^ 100) * (1 / (2 * 10 ^ 100) / 1)) (1 * (1 / 0.14)) (- (s * (t / m)))"
    using p by (simp only: mag_in_minus)
  then show "dbl (- (s * (t / m))) = Fin (- (s * (t / m)))" by (rule dbl_mag) simp_all
qed

lemma dbl_zx_sum:
  assumes "mag_in (1 / (2 * 10 ^ 100)) 1 s" and "mag_in (1 / (2 * 10 ^ 100)) 1 t"
    and "0.14 \<le> m" and "m \<le> 1"
  shows "dbl (s * (s / m) + t * (t / m)) = Fin (s * (s / m) + t * (t / m))"
proof -
  have mpos: "0 < m" using assms(3) by simp
  have a: "0 \<le> s * (s / m)" using mpos by (simp add: zero_le_mult_iff zero_le_divide_iff)
  have b: "0 \<le> t * (t / m)" using mpos by (simp add: zero_le_mult_iff zero_le_divide_iff)
  have "mag_in (1 / (2 * 10 ^ 100) * (1 / (2 * 10 ^ 100) / 1)) (1 * (1 / 0.14) + 1 * (1 / 0.14))
      (s * (s / m) + t * (t / m))"
    using dbl_zx(3) [OF assms(1,1,3,4)] dbl_zx(3) [OF assms(2,2,3,4)] a b
    by (rule mag_in_add_nonneg) simp_all
  then show ?thesis by (rule dbl_mag) simp_all
qed

lemma cyl_y_fvec:
  assumes "mag_in (1 / (2 * 10 ^ 100)) 1 z0" and "mag_in (1 / (2 * 10 ^ 100)) 1 z1"
    and "mag_in (1 / (2 * 10 ^ 100)) 1 z2" and "dot3 (z0, z1, z2) (z0, z1, z2) = 1"
  shows "np_cross (fvec (z0, z1, z2)) (fvec (unit3 (ref3 (z0, z1, z2))))
       = fvec (cross3 (z0, z1, z2) (unit3 (ref3 (z0, z1, z2))))"
proof (cases "\<bar>z2\<bar> < 0.99")
  case True
  define m where "m = norm3 (- z1, z0, 0)"
  have r: "ref3 (z0, z1, z2) = (- z1, z0, 0)" using True by (simp add: ref3_cases)
  have lo: "0.14 \<le> m" using ref3_norm [OF assms(4)] r by (simp add: m_def)
  have hi: "m \<le> 1" using ref3_norm_le [OF assms(4)] r by (simp add: m_def)
  have x: "unit3 (ref3 (z0, z1, z2)) = (- z1 / m, z0 / m, 0)" by (simp add: r m_def)
  have "np_cross (fvec (z0, z1, z2)) (fvec (- z1 / m, z0 / m, 0))
      = fvec (cross3 (z0, z1, z2) (- z1 / m, z0 / m, 0))"
  proof (rule np_cross_fvec)
    show "dbl (z1 * 0) = Fin (z1 * 0)" by (simp add: dbl_zero)
    show "dbl (z2 * (z0 / m)) = Fin (z2 * (z0 / m))"
      using assms(3,1) lo hi by (rule dbl_zx)
    show "dbl (z2 * (- z1 / m)) = Fin (z2 * (- z1 / m))"
      using dbl_zx(2) [OF assms(3,2) lo hi] by simp
    show "dbl (z0 * 0) = Fin (z0 * 0)" by (simp add: dbl_zero)
    show "dbl (z0 * (z0 / m)) = Fin (z0 * (z0 / m))"
      using assms(1,1) lo hi by (rule dbl_zx)
    show "dbl (z1 * (- z1 / m)) = Fin (z1 * (- z1 / m))"
      using dbl_zx(2) [OF assms(2,2) lo hi] by simp
    show "dbl (z1 * 0 - z2 * (z0 / m)) = Fin (z1 * 0 - z2 * (z0 / m))"
      using dbl_zx(2) [OF assms(3,1) lo hi] by simp
    show "dbl (z2 * (- z1 / m) - z0 * 0) = Fin (z2 * (- z1 / m) - z0 * 0)"
      using dbl_zx(2) [OF assms(3,2) lo hi] by simp
    show "dbl (z0 * (z0 / m) - z1 * (- z1 / m)) = Fin (z0 * (z0 / m) - z1 * (- z1 / m))"
      using dbl_zx_sum [OF assms(1,2) lo hi] by simp
  qed
  then show ?thesis by (simp only: x)
next
  case False
  define m where "m = norm3 (z2, 0, - z0)"
  have r: "ref3 (z0, z1, z2) = (z2, 0, - z0)" using False by (simp add: ref3_cases)
  have lo: "0.14 \<le> m" using ref3_norm [OF assms(4)] r by (simp add: m_def)
  have hi: "m \<le> 1" using ref3_norm_le [OF assms(4)] r by (simp add: m_def)
  have x: "unit3 (ref3 (z0, z1, z2)) = (z2 / m, 0, - z0 / m)" by (simp add: r m_def)
  have "np_cross (fvec (z0, z1, z2)) (fvec (z2 / m, 0, - z0 / m))
      = fvec (cross3 (z0, z1, z2) (z2 / m, 0, - z0 / m))"
  proof (rule np_cross_fvec)
    show "dbl (z1 * (- z0 / m)) = Fin (z1 * (- z0 / m))"
      using dbl_zx(2) [OF assms(2,1) lo hi] by simp
    show "dbl (z2 * 0) = Fin (z2 * 0)" by (simp add: dbl_zero)
    show "dbl (z2 * (z2 / m)) = Fin (z2 * (z2 / m))"
      using assms(3,3) lo hi by (rule dbl_zx)
    show "dbl (z0 * (- z0 / m)) = Fin (z0 * (- z0 / m))"
      using dbl_zx(2) [OF assms(1,1) lo hi] by simp
    show "dbl (z0 * 0) = Fin (z0 * 0)" by (simp add: dbl_zero)
    show "dbl (z1 * (z2 / m)) = Fin (z1 * (z2 / m))"
      using assms(2,3) lo hi by (rule dbl_zx)
    show "dbl (z1 * (- z0 / m) - z2 * 0) = Fin (z1 * (- z0 / m) - z2 * 0)"
      using dbl_zx(2) [OF assms(2,1) lo hi] by simp
    show "dbl (z2 * (z2 / m) - z0 * (- z0 / m)) = Fin (z2 * (z2 / m) - z0 * (- z0 / m))"
      using dbl_zx_sum [OF assms(3,1) lo hi] by simp
    show "dbl (z0 * 0 - z1 * (z2 / m)) = Fin (z0 * 0 - z1 * (z2 / m))"
      using dbl_zx(2) [OF assms(2,3) lo hi] by simp
  qed
  then show ?thesis by (simp only: x)
qed

lemma cyl_frame_fvec:
  assumes "axis_ok vec"
  shows "cyl_frame vec =
    (fvec (unit3 (ref3 (unit3 vec))),
     fvec (cross3 (unit3 vec) (unit3 (ref3 (unit3 vec)))),
     fvec (unit3 vec))"
proof -
  obtain z0 z1 z2 where z: "unit3 vec = (z0, z1, z2)" by (cases "unit3 vec")
  note m = unit3_mag [OF assms z]
  have u: "dot3 (z0, z1, z2) (z0, z1, z2) = 1"
    using unit3_unit [OF axis_ok_nonzero [OF assms]] z by simp
  show ?thesis
    unfolding cyl_frame_def Let_def cyl_axis_fvec [OF assms] z
      cyl_ref_fvec [OF m] cyl_x_fvec [OF m u] cyl_y_fvec [OF m u]
    by (rule refl)
qed

lemma sqrt_199_bounds: "1 \<le> sqrt 199" "sqrt 199 \<le> 15"
proof -
  show "1 \<le> sqrt 199" by simp
  show "sqrt 199 \<le> 15" by (rule real_le_lsqrt) simp_all
qed

lemma axis_ok_boundary: "axis_ok (sqrt 199, 0, 99)"
proof -
  have "(1::real) / 10 ^ 50 \<le> 1" by simp
  then have a: "1 / 10 ^ 50 \<le> \<bar>sqrt 199\<bar>" using sqrt_199_bounds(1) by linarith
  have "(15::real) \<le> 10 ^ 50" by simp
  then have b: "\<bar>sqrt 199\<bar> \<le> 10 ^ 50" using sqrt_199_bounds by linarith
  have r1: "in_range (sqrt 199)" unfolding in_range_def mag_in_def using a b by blast
  have r2: "in_range 0" by (simp add: in_range_def mag_in_def)
  have r3: "in_range 99" by (simp add: in_range_def mag_in_def)
  show ?thesis using r1 r2 r3 by simp
qed

lemma cyl_axis_boundary: "cyl_axis (sqrt 199, 0, 99) = fvec (sqrt 199 / 100, 0, 0.99)"
  using cyl_axis_fvec [OF axis_ok_boundary] by (simp add: norm3_boundary_axis)

lemma unit3_boundary: "unit3 (sqrt 199, 0, 99) = (sqrt 199 / 100, 0, 0.99)"
  by (simp add: norm3_boundary_axis)

text \<open>
  C5, as stated, fails on the threshold: for the axis \<open>(sqrt 199, 0, 99)\<close> the
  normalised axis has \<open>z[2] = 0.99\<close> exactly; the code crosses the secondary axis
  \<open>(0,1,0)\<close> with it, while the test \<open>|axis \<cdot> up| > 0.99\<close> selects world-up.
\<close>

theorem cyl_ref_threshold_counterexample:
  "cyl_axis (sqrt 199, 0, 99) = fvec (sqrt 199 / 100, 0, 0.99)
   \<and> cyl_ref (cyl_axis (sqrt 199, 0, 99)) = fvec (0.99, 0, - (sqrt 199 / 100))
   \<and> cyl_ref_spec (cyl_axis (sqrt 199, 0, 99)) = fvec (0, sqrt 199 / 100, 0)
   \<and> cyl_ref (cyl_axis (sqrt 199, 0, 99)) \<noteq> cyl_ref_spec (cyl_axis (sqrt 199, 0, 99))"
proof -
  note m = unit3_mag [OF axis_ok_boundary unit3_boundary]
  have d: "dbl (99 / 100) = Fin (99 / 100)" by (rule dbl_id) simp_all
  show ?thesis
    using dbl_zmag [OF m(1)] dbl_zmag [OF m(3)]
    by (simp add: cyl_axis_boundary cyl_ref_def cyl_ref_spec_def np_sub_def dbl_zero d)
qed

text \<open>
  C5, amended. Let every component of the axis be zero or of magnitude between
  \<open>10^-50\<close> and \<open>10^50\<close>, not all zero. Then the normalised axis \<open>z\<close> is an array of
  finite floats; the reference vector is \<open>(0,0,1) \<times> z\<close> when \<open>|z[2]| < 0.99\<close> and
  \<open>(0,1,0) \<times> z\<close> otherwise (so the nearly-parallel test is \<open>|z[2]| \<ge> 0.99\<close>); its
  length, by which line 61 divides, is greater than \<open>0.14\<close>; and the three vectors
  \<open>x\<close>, \<open>y\<close>, \<open>z\<close> are finite and orthonormal to within \<open>10^-9\<close>.
\<close>

theorem cyl_frame_orthonormal:
  assumes "axis_ok vec"
  shows "\<exists>x0 x y z.
     cyl_axis vec = fvec z
   \<and> cyl_ref (fvec z) = fvec x0
   \<and> x0 = (if \<bar>snd (snd z)\<bar> < 0.99 then cross3 (0, 0, 1) z else cross3 (0, 1, 0) z)
   \<and> 0.14 < norm3 x0
   \<and> cyl_frame vec = (fvec x, fvec y, fvec z)
   \<and> near_orthonormal (1 / 10 ^ 9) x y z"
proof -
  have nz: "vec \<noteq> (0, 0, 0)" using assms by (rule axis_ok_nonzero)
  have zz: "dot3 (unit3 vec) (unit3 vec) = 1" using nz by (rule unit3_unit)
  obtain z0 z1 z2 where z: "unit3 vec = (z0, z1, z2)" by (cases "unit3 vec")
  have ref: "cyl_ref (fvec (unit3 vec)) = fvec (ref3 (unit3 vec))"
    unfolding z using unit3_mag [OF assms z] by (rule cyl_ref_fvec)
  have "near_orthonormal (1 / 10 ^ 9) (unit3 (ref3 (unit3 vec)))
          (cross3 (unit3 vec) (unit3 (ref3 (unit3 vec)))) (unit3 vec)"
    using frame_orthonormal [OF nz] by (simp add: orthonormal_def near_orthonormal_def)
  then show ?thesis
    using cyl_axis_fvec [OF assms] ref ref3_norm [OF zz] cyl_frame_fvec [OF assms]
    by (intro exI [of _ "ref3 (unit3 vec)"] exI [of _ "unit3 (ref3 (unit3 vec))"]
          exI [of _ "cross3 (unit3 vec) (unit3 (ref3 (unit3 vec)))"] exI [of _ "unit3 vec"])
       (simp add: ref3_def)
qed

lemma axis_ok_up: "axis_ok (0, 0, 1)"
  by (simp add: in_range_def mag_in_def)

theorem cyl_frame_orthonormal_witness:
  "axis_ok (0, 0, 1)
   \<and> cyl_frame (0, 0, 1) = (fvec (1, 0, 0), fvec (0, 1, 0), fvec (0, 0, 1))
   \<and> near_orthonormal (1 / 10 ^ 9) (1, 0, 0) (0, 1, 0) (0, 0, 1)"
  using cyl_frame_orthonormal [OF axis_ok_up] cyl_frame_fvec [OF axis_ok_up]
  by (simp add: in_range_def mag_in_def norm3_def ref3_def near_orthonormal_def)

subsection \<open>The faces\<close>

lemma np_mul_NaN_right: "np_mul s NaN = NaN"
  by (cases s) simp_all

lemma np_add_NaN_right: "np_add s NaN = NaN"
  by (cases s) simp_all

lemma linspace_length: "length (linspace_open s m) = m"
  by (simp add: linspace_open_def)

lemma linspace_fin: "th \<in> set (linspace_open s m) \<Longrightarrow> \<exists>t. th = Fin t"
  by (auto simp add: linspace_open_def)

lemma cyl_frame_zero:
  "cyl_frame (0, 0, 0) = ((NaN, NaN, NaN), (NaN, NaN, NaN), (NaN, NaN, NaN))"
  by (simp add: cyl_frame_def cyl_axis_def cyl_ref_def np_norm_def np_sub_def Let_def dbl_zero)

lemma dbl_underflow:
  assumes "\<bar>x\<bar> \<le> 1 / 2 ^ 1075"
  shows "dbl x = Fin 0"
proof -
  have "(1::real) / 2 ^ 1075 < 2 ^ 1024 - 2 ^ 970" by simp
  then have "\<not> 2 ^ 1024 - 2 ^ 970 \<le> \<bar>x\<bar>" using assms by linarith
  then show ?thesis unfolding dbl_def using assms by (simp only: if_False if_True)
qed

lemma cyl_frame_underflow:
  assumes "0 < t" and "t * t \<le> 1 / 2 ^ 1075"
  shows "cyl_frame (t, 0, 0) = ((NaN, NaN, NaN), (NaN, NaN, NaN), (PInf, NaN, NaN))"
proof -
  have "\<bar>t * t\<bar> \<le> 1 / 2 ^ 1075" using assms(2) by simp
  then have sq: "dbl (t * t) = Fin 0" by (rule dbl_underflow)
  have n: "np_norm (Fin t, Fin 0, Fin 0) = Fin 0"
    by (simp add: np_norm_def sq dbl_zero)
  have z: "cyl_axis (t, 0, 0) = (PInf, NaN, NaN)"
    using assms(1) by (simp add: cyl_axis_def n)
  have x0: "cyl_ref (PInf, NaN, NaN) = (NaN, NaN, NaN)"
    by (simp add: cyl_ref_def np_sub_def inf_times_def)
  show ?thesis
    by (simp add: cyl_frame_def Let_def z x0 np_norm_def np_sub_def)
qed

lemma cyl_faces_nan:
  assumes "0 < n" and "cyl_frame vec = ((NaN, NaN, NaN), (NaN, NaN, NaN), z)"
  shows "cyl_faces base vec r n = Inr (replicate (nat n) (replicate 4 (NaN, NaN, NaN)))"
proof -
  define m where "m = nat n"
  define c0 where "c0 = map (\<lambda>th. vadd (fvec base)
      (vscale (Fin r) (vadd (vscale (np_cos th) (NaN, NaN, NaN)) (vscale (np_sin th) (NaN, NaN, NaN)))))
      (linspace_open (2 * pi) m)"
  define c1 where "c1 = map (\<lambda>v. vadd v (fvec vec)) c0"
  have eq: "cyl_faces base vec r n
      = Inr (map (\<lambda>i. [c0 ! i, c0 ! ((i + 1) mod m), c1 ! ((i + 1) mod m), c1 ! i]) [0..<m])"
    using assms(1) by (simp add: cyl_faces_def assms(2) Let_def m_def c0_def c1_def)
  have v: "vadd (fvec base)
      (vscale (Fin r) (vadd (vscale s (NaN, NaN, NaN)) (vscale s' (NaN, NaN, NaN)))) = (NaN, NaN, NaN)"
    for s s'
    by (cases base) (simp add: np_mul_NaN_right np_add_NaN_right)
  have w: "vadd (NaN, NaN, NaN) (fvec vec) = (NaN, NaN, NaN)"
    by (cases vec) simp
  have c0: "c0 = replicate m (NaN, NaN, NaN)"
    by (simp only: c0_def v map_replicate_const linspace_length)
  have c1: "c1 = replicate m (NaN, NaN, NaN)"
    by (simp only: c1_def c0 map_replicate w)
  have "map (\<lambda>i. [c0 ! i, c0 ! ((i + 1) mod m), c1 ! ((i + 1) mod m), c1 ! i]) [0..<m]
      = map (\<lambda>i. replicate 4 (NaN, NaN, NaN)) [0..<m]"
    by (rule map_cong) (simp_all add: c0 c1 numeral_eq_Suc)
  also have "\<dots> = replicate m (replicate 4 (NaN, NaN, NaN))"
    by (simp add: map_replicate_const)
  finally show ?thesis using eq by (simp add: m_def)
qed

subsection \<open>Bounded vertices\<close>

lemma vbounded_fvec: "max_abs v \<le> B \<Longrightarrow> vbounded B (fvec v)"
  unfolding vbounded_def by blast

lemma vbounded_finite: "vbounded B w \<Longrightarrow> vfinite w"
proof -
  assume "vbounded B w"
  then obtain v where "w = fvec v" unfolding vbounded_def by blast
  then show ?thesis by (cases v) simp
qed

lemma vbounded_vadd:
  assumes "vbounded B1 u" and "vbounded B2 v" and "B1 + B2 \<le> 10 ^ 300"
  shows "vbounded (B1 + B2) (vadd u v)"
proof -
  obtain a0 a1 a2 where u: "u = fvec (a0, a1, a2)" and ub: "max_abs (a0, a1, a2) \<le> B1"
    using assms(1) unfolding vbounded_def by (metis prod_cases3)
  obtain b0 b1 b2 where v: "v = fvec (b0, b1, b2)" and vb: "max_abs (b0, b1, b2) \<le> B2"
    using assms(2) unfolding vbounded_def by (metis prod_cases3)
  have s: "\<exists>y. dbl (a + b) = Fin y \<and> \<bar>y\<bar> \<le> B1 + B2" if "\<bar>a\<bar> \<le> B1" and "\<bar>b\<bar> \<le> B2" for a b
  proof -
    have le: "\<bar>a + b\<bar> \<le> B1 + B2" using that by linarith
    then have "\<bar>a + b\<bar> \<le> 10 ^ 300" using assms(3) by linarith
    then obtain y where "dbl (a + b) = Fin y" and "\<bar>y\<bar> \<le> \<bar>a + b\<bar>" using dbl_fin by blast
    then show ?thesis using le by (intro exI [of _ y]) linarith
  qed
  obtain y0 where y0: "dbl (a0 + b0) = Fin y0" "\<bar>y0\<bar> \<le> B1 + B2" using s [of a0 b0] ub vb by auto
  obtain y1 where y1: "dbl (a1 + b1) = Fin y1" "\<bar>y1\<bar> \<le> B1 + B2" using s [of a1 b1] ub vb by auto
  obtain y2 where y2: "dbl (a2 + b2) = Fin y2" "\<bar>y2\<bar> \<le> B1 + B2" using s [of a2 b2] ub vb by auto
  have "vadd u v = fvec (y0, y1, y2)" by (simp add: u v y0 y1 y2)
  moreover have "max_abs (y0, y1, y2) \<le> B1 + B2" using y0 y1 y2 by simp
  ultimately show ?thesis unfolding vbounded_def by blast
qed

lemma vbounded_vscale:
  assumes "\<bar>s\<bar> \<le> A" and "vbounded B v" and "A * B \<le> 10 ^ 300"
  shows "vbounded (A * B) (vscale (Fin s) v)"
proof -
  obtain b0 b1 b2 where v: "v = fvec (b0, b1, b2)" and vb: "max_abs (b0, b1, b2) \<le> B"
    using assms(2) unfolding vbounded_def by (metis prod_cases3)
  have p: "\<exists>y. dbl (s * b) = Fin y \<and> \<bar>y\<bar> \<le> A * B" if "\<bar>b\<bar> \<le> B" for b
  proof -
    have le: "\<bar>s * b\<bar> \<le> A * B"
      unfolding abs_mult using assms(1) that by (intro mult_mono) simp_all
    then have "\<bar>s * b\<bar> \<le> 10 ^ 300" using assms(3) by linarith
    then obtain y where "dbl (s * b) = Fin y" and "\<bar>y\<bar> \<le> \<bar>s * b\<bar>" using dbl_fin by blast
    then show ?thesis using le by (intro exI [of _ y]) linarith
  qed
  obtain y0 where y0: "dbl (s * b0) = Fin y0" "\<bar>y0\<bar> \<le> A * B" using p [of b0] vb by auto
  obtain y1 where y1: "dbl (s * b1) = Fin y1" "\<bar>y1\<bar> \<le> A * B" using p [of b1] vb by auto
  obtain y2 where y2: "dbl (s * b2) = Fin y2" "\<bar>y2\<bar> \<le> A * B" using p [of b2] vb by auto
  have "vscale (Fin s) v = fvec (y0, y1, y2)" by (simp add: v y0 y1 y2)
  moreover have "max_abs (y0, y1, y2) \<le> A * B" using y0 y1 y2 by simp
  ultimately show ?thesis unfolding vbounded_def by blast
qed

lemma axis_ok_max_abs: "axis_ok vec \<Longrightarrow> max_abs vec \<le> 10 ^ 50"
  by (cases vec) (auto simp add: in_range_def mag_in_def)

lemma cyl_faces_finite:
  assumes "0 < n" and "axis_ok vec" and "max_abs base \<le> 10 ^ 100" and "\<bar>r\<bar> \<le> 10 ^ 100"
  shows "\<exists>faces. cyl_faces base vec r n = Inr faces \<and> length faces = nat n
     \<and> list_all (list_all vfinite) faces"
proof -
  define m where "m = nat n"
  define x where "x = unit3 (ref3 (unit3 vec))"
  define y where "y = cross3 (unit3 vec) (unit3 (ref3 (unit3 vec)))"
  define c0 where "c0 = map (\<lambda>th. vadd (fvec base)
      (vscale (Fin r) (vadd (vscale (np_cos th) (fvec x)) (vscale (np_sin th) (fvec y)))))
      (linspace_open (2 * pi) m)"
  define c1 where "c1 = map (\<lambda>v. vadd v (fvec vec)) c0"
  have fr: "cyl_frame vec = (fvec x, fvec y, fvec (unit3 vec))"
    using assms(2) by (simp add: cyl_frame_fvec x_def y_def)
  have eq: "cyl_faces base vec r n
      = Inr (map (\<lambda>i. [c0 ! i, c0 ! ((i + 1) mod m), c1 ! ((i + 1) mod m), c1 ! i]) [0..<m])"
    using assms(1) by (simp add: cyl_faces_def fr Let_def m_def c0_def c1_def)
  have on: "orthonormal x y (unit3 vec)"
    unfolding x_def y_def using axis_ok_nonzero [OF assms(2)] by (rule frame_orthonormal)
  have bx: "vbounded 1 (fvec x)" using on by (intro vbounded_fvec max_abs_unit) (simp add: orthonormal_def)
  have by': "vbounded 1 (fvec y)" using on by (intro vbounded_fvec max_abs_unit) (simp add: orthonormal_def)
  have bb: "vbounded (10 ^ 100) (fvec base)" using assms(3) by (rule vbounded_fvec)
  have bv: "vbounded (10 ^ 50) (fvec vec)" using axis_ok_max_abs [OF assms(2)] by (rule vbounded_fvec)
  have b0: "vbounded (10 ^ 100 + 10 ^ 100 * (1 * 1 + 1 * 1)) v" if "v \<in> set c0" for v
  proof -
    from that obtain th where th: "th \<in> set (linspace_open (2 * pi) m)"
      and v: "v = vadd (fvec base)
          (vscale (Fin r) (vadd (vscale (np_cos th) (fvec x)) (vscale (np_sin th) (fvec y))))"
      by (auto simp add: c0_def)
    from linspace_fin [OF th] obtain t where t: "th = Fin t" by blast
    have 1: "vbounded (1 * 1) (vscale (Fin (cos t)) (fvec x))"
      using _ bx by (rule vbounded_vscale) simp_all
    have 2: "vbounded (1 * 1) (vscale (Fin (sin t)) (fvec y))"
      using _ by' by (rule vbounded_vscale) simp_all
    have 3: "vbounded (1 * 1 + 1 * 1)
        (vadd (vscale (Fin (cos t)) (fvec x)) (vscale (Fin (sin t)) (fvec y)))"
      using 1 2 by (rule vbounded_vadd) simp
    have 4: "vbounded (10 ^ 100 * (1 * 1 + 1 * 1))
        (vscale (Fin r) (vadd (vscale (Fin (cos t)) (fvec x)) (vscale (Fin (sin t)) (fvec y))))"
      using assms(4) 3 by (rule vbounded_vscale) simp
    show ?thesis unfolding v t np_cos.simps np_sin.simps
      using bb 4 by (rule vbounded_vadd) simp
  qed
  have b1: "vbounded (10 ^ 100 + 10 ^ 100 * (1 * 1 + 1 * 1) + 10 ^ 50) v" if "v \<in> set c1" for v
  proof -
    from that obtain w where w: "w \<in> set c0" and v: "v = vadd w (fvec vec)"
      by (auto simp add: c1_def)
    show ?thesis unfolding v using b0 [OF w] bv by (rule vbounded_vadd) simp
  qed
  have fin0: "vfinite v" if "v \<in> set c0" for v using b0 [OF that] by (rule vbounded_finite)
  have fin1: "vfinite v" if "v \<in> set c1" for v using b1 [OF that] by (rule vbounded_finite)
  have len0: "length c0 = m" by (simp add: c0_def linspace_length)
  have len1: "length c1 = m" by (simp add: c1_def len0)
  have "list_all vfinite [c0 ! i, c0 ! ((i + 1) mod m), c1 ! ((i + 1) mod m), c1 ! i]"
    if "i < m" for i
  proof -
    have j: "(i + 1) mod m < m" using that by simp
    show ?thesis using that j fin0 fin1 len0 len1 by (simp add: nth_mem)
  qed
  then have "list_all (list_all vfinite)
      (map (\<lambda>i. [c0 ! i, c0 ! ((i + 1) mod m), c1 ! ((i + 1) mod m), c1 ! i]) [0..<m])"
    by (simp add: list_all_iff)
  then show ?thesis using eq by (simp add: m_def)
qed

text \<open>
  C10, as stated, fails: the axis \<open>(2^-600, 0, 0)\<close> is not zero, but its squared norm
  underflows to \<open>0\<close>, line 58 divides by zero, and every coordinate of every face is
  \<open>nan\<close>.
\<close>

theorem cyl_faces_tiny_axis_counterexample:
  "(1 / 2 ^ 600, 0, 0) \<noteq> ((0, 0, 0)::point)
   \<and> cyl_faces (4, 10, 2) (1 / 2 ^ 600, 0, 0) 1.5875 48
       = Inr (replicate 48 (replicate 4 (NaN, NaN, NaN)))"
proof -
  have "cyl_frame (1 / 2 ^ 600, 0, 0) = ((NaN, NaN, NaN), (NaN, NaN, NaN), (PInf, NaN, NaN))"
    by (rule cyl_frame_underflow) simp_all
  then have "cyl_faces (4, 10, 2) (1 / 2 ^ 600, 0, 0) 1.5875 48
       = Inr (replicate (nat 48) (replicate 4 (NaN, NaN, NaN)))"
    by (rule cyl_faces_nan [rotated]) simp
  then show ?thesis by simp
qed

text \<open>
  C10, amended. The axis is divided by its norm without a guard. With a positive number
  \<open>n\<close> of segments: for an axis in range (every component zero or of magnitude between
  \<open>10^-50\<close> and \<open>10^50\<close>, not all zero), a base and a radius of magnitude at most
  \<open>10^100\<close>, \<^verbatim>\<open>cyl_faces\<close> returns \<open>n\<close> faces all of whose vertex coordinates are
  finite; for the zero axis it raises nothing and returns \<open>n\<close> faces of four vertices
  each all of whose coordinates are \<open>nan\<close>.
\<close>

theorem cyl_faces_axis_precondition:
  assumes "0 < n"
  shows "(axis_ok vec \<and> max_abs base \<le> 10 ^ 100 \<and> \<bar>r\<bar> \<le> 10 ^ 100 \<longrightarrow>
           (\<exists>faces. cyl_faces base vec r n = Inr faces \<and> length faces = nat n
              \<and> list_all (list_all vfinite) faces))
       \<and> cyl_faces base (0, 0, 0) r n = Inr (replicate (nat n) (replicate 4 (NaN, NaN, NaN)))"
  using cyl_faces_finite [OF assms] cyl_faces_nan [OF assms cyl_frame_zero] by blast

theorem cyl_faces_axis_precondition_witness:
  "(0::int) < 48 \<and> axis_ok (0, 0, 18) \<and> max_abs (4, 10, 2) \<le> 10 ^ 100 \<and> \<bar>1.5875::real\<bar> \<le> 10 ^ 100
   \<and> (\<exists>faces. cyl_faces (4, 10, 2) (0, 0, 18) 1.5875 48 = Inr faces \<and> length faces = 48
          \<and> list_all (list_all vfinite) faces)
   \<and> cyl_faces (4, 10, 2) (0, 0, 0) 1.5875 48 = Inr (replicate 48 (replicate 4 (NaN, NaN, NaN)))"
  using cyl_faces_axis_precondition [of 48 "(0, 0, 18)" "(4, 10, 2)" "1.5875"]
  by (simp add: in_range_def mag_in_def)

end
